theory Spec2Isabelle
  imports Main "HOL-Library.AList"
begin

section \<open>Values, events and the runtime\<close>

text \<open>
  A shallow embedding of \<^verbatim>\<open>task_sdk/src/airflow/sdk/log.py\<close>.

  An exception instance is either a plain exception (type name, message) or an
  exception group, which also carries its \<^verbatim>\<open>exceptions\<close>.
\<close>

datatype exn =
    Exn string string
  | ExnGroup string string "exn list"

fun type_name :: "exn \<Rightarrow> string" where
  "type_name (Exn t m) = t"
| "type_name (ExnGroup t m es) = t"

text \<open>
  The Python values an event field can hold. \<open>VType\<close> is a class object and
  \<open>VTraceback\<close> a traceback object, as they stand in an \<^verbatim>\<open>exc_info\<close> triple.
\<close>

datatype pyval =
    VNone
  | VBool bool
  | VInt int
  | VStr string
  | VList "pyval list"
  | VTuple "pyval list"
  | VDict "(string \<times> pyval) list"
  | VType string
  | VTraceback
  | VExc exn

text \<open>
  An event dict keeps its insertion order, so it is an association list whose keys are
  distinct. \<^verbatim>\<open>d[k] = v\<close> is \<^const>\<open>AList.update\<close> (in place when the key exists, at the
  end otherwise), \<^verbatim>\<open>del d[k]\<close> is \<^const>\<open>AList.delete\<close>, \<^verbatim>\<open>d.get(k)\<close> is \<^const>\<open>map_of\<close>.
\<close>

type_synonym event_dict = "(string \<times> pyval) list"

text \<open>Python's truth value of an object (\<^verbatim>\<open>if x:\<close>).\<close>

fun truthy :: "pyval \<Rightarrow> bool" where
  "truthy VNone = False"
| "truthy (VBool b) = b"
| "truthy (VInt i) = (i \<noteq> 0)"
| "truthy (VStr s) = (s \<noteq> [])"
| "truthy (VList xs) = (xs \<noteq> [])"
| "truthy (VTuple xs) = (xs \<noteq> [])"
| "truthy (VDict kvs) = (kvs \<noteq> [])"
| "truthy (VType t) = True"
| "truthy VTraceback = True"
| "truthy (VExc e) = True"

text \<open>
  What the module reads from the interpreter it runs in: the value of the expression
  \<^verbatim>\<open>hasattr(__builtins__, "BaseExceptionGroup")\<close>,
  \<^verbatim>\<open>"PYTEST_CURRENT_TEST" in os.environ\<close> and \<^verbatim>\<open>sys.exc_info()\<close> (the exception being
  handled, if any).

  \<open>has_BaseExceptionGroup\<close> is the value of the \<^verbatim>\<open>hasattr\<close> expression and nothing else. It
  does not say which Python runs: in a module that is imported, \<^verbatim>\<open>__builtins__\<close> is a
  dict, which has no such attribute, so the value is false there on every Python
  version; it is true only where \<^verbatim>\<open>__builtins__\<close> is the module \<^verbatim>\<open>builtins\<close> and that
  module has the class.
\<close>

record runtime =
  has_BaseExceptionGroup :: bool
  pytest_current_test :: bool
  sys_exc_info :: "exn option"

text \<open>The exceptions a call can end with.\<close>

datatype py_error =
    ValueError string
  | KeyError string
  | NameError string
  | AttributeError string
  | RecursionError
  | OtherException string
  | NonException string

text \<open>
  \<open>OtherException\<close> is any other instance of \<^verbatim>\<open>Exception\<close>; \<open>NonException\<close> is a
  \<^verbatim>\<open>BaseException\<close> that is not an \<^verbatim>\<open>Exception\<close> (\<^verbatim>\<open>KeyboardInterrupt\<close>,
  \<^verbatim>\<open>SystemExit\<close>, \<^verbatim>\<open>GeneratorExit\<close>).
\<close>

definition isinstance_Exception :: "py_error \<Rightarrow> bool" where
  "isinstance_Exception e = (case e of NonException n \<Rightarrow> False | _ \<Rightarrow> True)"

section \<open>Field processors\<close>

subsection \<open>\<^verbatim>\<open>redact_jwt\<close>\<close>

definition isinstance_str :: "pyval \<Rightarrow> bool" where
  "isinstance_str v = (case v of VStr s \<Rightarrow> True | _ \<Rightarrow> False)"

text \<open>
  \<^verbatim>\<open>v.startswith(p)\<close>. The prefix tested is ASCII, so the test reads the same on the bytes
  of a string as on its code points.
\<close>

definition startswith :: "pyval \<Rightarrow> string \<Rightarrow> bool" where
  "startswith v p = (case v of VStr s \<Rightarrow> take (length p) s = p | _ \<Rightarrow> False)"

text \<open>
  \<^verbatim>\<open>for k, v in event_dict.items(): if ...: event_dict[k] = "eyJ***"\<close>.
  The loop walks the live dict: step \<open>i\<close> reads the item at position \<open>i\<close> of the dict as
  it is then. The assignment is to a key that exists, so the dict keeps its size
  and Python's check against a resize during the iteration never fires.
\<close>

definition redact_step :: "string \<times> pyval \<Rightarrow> event_dict \<Rightarrow> event_dict" where
  "redact_step kv event_dict =
     (case kv of (k, v) \<Rightarrow>
        if isinstance_str v \<and> startswith v ''eyJ''
        then AList.update k (VStr ''eyJ***'') event_dict
        else event_dict)"

function redact_jwt_loop :: "nat \<Rightarrow> event_dict \<Rightarrow> event_dict" where
  "redact_jwt_loop i event_dict =
     (if i < length event_dict
      then redact_jwt_loop (Suc i) (redact_step (event_dict ! i) event_dict)
      else event_dict)"
  by pat_completeness auto
termination
proof (relation "measure (\<lambda>(i, event_dict). length event_dict - i)")
  show "wf (measure (\<lambda>(i, event_dict :: event_dict). length event_dict - i))"
    by simp
next
  fix i :: nat and event_dict :: event_dict
  assume i: "i < length event_dict"
  obtain k v where kv: "event_dict ! i = (k, v)"
    by (cases "event_dict ! i")
  have len: "length (AList.update k' w al) = length al" if "k' \<in> fst ` set al"
    for k' :: string and w :: pyval and al
    using that by (induction al) auto
  from i kv have "k \<in> fst ` set event_dict"
    by (metis fst_conv image_eqI nth_mem)
  then have "length (redact_step (event_dict ! i) event_dict) = length event_dict"
    by (simp add: redact_step_def kv len)
  with i show "((Suc i, redact_step (event_dict ! i) event_dict), (i, event_dict))
      \<in> measure (\<lambda>(i, event_dict). length event_dict - i)"
    by simp
qed

definition redact_jwt :: "event_dict \<Rightarrow> event_dict" where
  "redact_jwt event_dict = redact_jwt_loop 0 event_dict"

subsection \<open>\<^verbatim>\<open>logger_name\<close> and \<^verbatim>\<open>drop_positional_args\<close>\<close>

definition setdefault :: "string \<Rightarrow> pyval \<Rightarrow> event_dict \<Rightarrow> event_dict" where
  "setdefault k v d = (if k \<in> fst ` set d then d else AList.update k v d)"

text \<open>
  \<^verbatim>\<open>if logger_name := event_dict.pop("logger_name", None): event_dict.setdefault("logger", logger_name)\<close>:
  the key is popped whatever its value is; \<^verbatim>\<open>logger\<close> is set only for a true value.
\<close>

definition logger_name :: "event_dict \<Rightarrow> event_dict" where
  "logger_name event_dict =
     (case map_of event_dict ''logger_name'' of
        None \<Rightarrow> event_dict
      | Some n \<Rightarrow>
          (let popped = AList.delete ''logger_name'' event_dict
           in if truthy n then setdefault ''logger'' n popped else popped))"

definition drop_positional_args :: "event_dict \<Rightarrow> event_dict" where
  "drop_positional_args event_dict = AList.delete ''positional_args'' event_dict"

subsection \<open>\<^verbatim>\<open>exception_group_tracebacks\<close>\<close>

text \<open>
  Lines 44 to 48 bind the name \<^verbatim>\<open>BaseExceptionGroup\<close> in the scope of
  \<^verbatim>\<open>exception_group_tracebacks\<close>, by a class statement under
  \<^verbatim>\<open>if not hasattr(__builtins__, "BaseExceptionGroup")\<close>. The name is therefore a local
  variable of that function, and the nested processor reads it from the enclosing scope,
  never from the builtins. Where the \<^verbatim>\<open>hasattr\<close> expression is true the class statement
  does not run and the variable is unbound: reading it raises \<^verbatim>\<open>NameError\<close>. Where it is
  false the variable holds the local class, of which no value is an instance.

  \<^verbatim>\<open>isinstance(x, BaseExceptionGroup)\<close>:
\<close>

definition isinstance_BaseExceptionGroup :: "runtime \<Rightarrow> pyval \<Rightarrow> py_error + bool" where
  "isinstance_BaseExceptionGroup rt v =
     (if has_BaseExceptionGroup rt then Inl (NameError ''BaseExceptionGroup'') else Inr False)"

text \<open>The triple \<^verbatim>\<open>sys.exc_info()\<close> returns.\<close>

definition exc_info_triple :: "runtime \<Rightarrow> pyval" where
  "exc_info_triple rt =
     (case sys_exc_info rt of
        None \<Rightarrow> VTuple [VNone, VNone, VNone]
      | Some e \<Rightarrow> VTuple [VType (type_name e), VExc e, VTraceback])"

text \<open>
  Lines 53 to 57: \<^verbatim>\<open>exc_info is True\<close> takes the exception being handled, and
  \<^verbatim>\<open>None\<close> when there is none.
\<close>

definition resolve_exc_info :: "runtime \<Rightarrow> pyval \<Rightarrow> pyval" where
  "resolve_exc_info rt exc_info =
     (if exc_info = VBool True
      then (case exc_info_triple rt of
              VTuple (VNone # rest) \<Rightarrow> VNone
            | t \<Rightarrow> t)
      else exc_info)"

text \<open>
  Lines 59 to 66: the group, from a triple or from an instance. The \<^verbatim>\<open>elif\<close> is
  evaluated whenever the first test is false, and each of the two tests that reaches
  \<^verbatim>\<open>BaseExceptionGroup\<close> reads the variable.
\<close>

definition select_group_elif :: "runtime \<Rightarrow> pyval \<Rightarrow> py_error + pyval option" where
  "select_group_elif rt exc_info =
     (case isinstance_BaseExceptionGroup rt exc_info of
        Inl e \<Rightarrow> Inl e
      | Inr is_group \<Rightarrow> Inr (if is_group then Some exc_info else None))"

definition select_group :: "runtime \<Rightarrow> pyval \<Rightarrow> py_error + pyval option" where
  "select_group rt exc_info =
     (case exc_info of
        VTuple [a, b, c] \<Rightarrow>
          (case isinstance_BaseExceptionGroup rt b of
             Inl e \<Rightarrow> Inl e
           | Inr is_group \<Rightarrow> if is_group then Inr (Some b) else select_group_elif rt exc_info)
      | _ \<Rightarrow> select_group_elif rt exc_info)"

fun exceptions :: "exn \<Rightarrow> exn list" where
  "exceptions (ExnGroup t m es) = es"
| "exceptions (Exn t m) = []"

text \<open>
  Lines 68 to 76: \<^verbatim>\<open>if group:\<close> removes \<^verbatim>\<open>exc_info\<close> and sets \<^verbatim>\<open>exception\<close> to the
  chained records of \<^verbatim>\<open>(*group.exceptions, group)\<close>. \<open>format_exception\<close> is the caller's
  formatter; it is given the triple of one exception (which the exception determines)
  and returns a list of records.
\<close>

definition flatten_group ::
  "(exn \<Rightarrow> pyval list) \<Rightarrow> pyval \<Rightarrow> event_dict \<Rightarrow> py_error + event_dict" where
  "flatten_group format_exception grp event_dict =
     (case grp of
        VExc g \<Rightarrow>
          Inr (AList.update ''exception''
                 (VList (concat (map format_exception (exceptions g @ [g]))))
                 (AList.delete ''exc_info'' event_dict))
      | _ \<Rightarrow> Inl (AttributeError ''exceptions''))"

text \<open>
  The processor \<^verbatim>\<open>exception_group_tracebacks(format_exception)\<close> returns (lines 50
  to 78).
\<close>

definition exception_group_tracebacks ::
  "runtime \<Rightarrow> (exn \<Rightarrow> pyval list) \<Rightarrow> event_dict \<Rightarrow> py_error + event_dict" where
  "exception_group_tracebacks rt format_exception event_dict =
     (case map_of event_dict ''exc_info'' of
        None \<Rightarrow> Inr event_dict
      | Some v \<Rightarrow>
          if \<not> truthy v then Inr event_dict
          else (case select_group rt (resolve_exc_info rt v) of
                  Inl e \<Rightarrow> Inl e
                | Inr None \<Rightarrow> Inr event_dict
                | Inr (Some grp) \<Rightarrow>
                    if truthy grp then flatten_group format_exception grp event_dict
                    else Inr event_dict))"

section \<open>The pipeline builder\<close>

text \<open>
  The modules whose code tracebacks leave out (\<^verbatim>\<open>click\<close>, \<^verbatim>\<open>contextlib\<close>,
  \<^verbatim>\<open>httpx\<close>, \<^verbatim>\<open>httpcore\<close>).
\<close>

datatype module = click | contextlib | httpx | httpcore

definition suppress :: "module list" where
  "suppress = [click, contextlib, httpx, httpcore, httpx]"

text \<open>
  The two exception formatters, with the arguments the module constructs them with:
  \<^verbatim>\<open>RichTracebackFormatter(extra_lines, max_frames, indent_guides, suppress)\<close> and
  \<^verbatim>\<open>ExceptionDictTransformer(use_rich, show_locals, suppress)\<close>. The second is given
  no \<^verbatim>\<open>max_frames\<close>. What the formatters do with a traceback is structlog's and is not
  modelled.
\<close>

datatype exc_formatter =
    RichTracebackFormatter nat nat bool "module list"
  | ExceptionDictTransformer bool bool "module list"

text \<open>
  The objects that stand in a processor chain. \<open>P_logger_name\<close>, \<open>P_redact_jwt\<close>,
  \<open>P_drop_positional_args\<close> and \<open>P_exception_group_tracebacks\<close> are this module's
  functions above, the others are structlog's. \<open>P_json_processor\<close> is the local function
  \<^verbatim>\<open>json_processor\<close>; \<open>P_None\<close> is Python's \<^verbatim>\<open>None\<close> where a processor is expected.
\<close>

datatype processor =
    MaybeTimeStamper string
  | P_merge_contextvars
  | P_add_log_level
  | PositionalArgumentsFormatter
  | P_logger_name
  | P_redact_jwt
  | StackInfoRenderer
  | ConsoleRenderer exc_formatter "(string \<times> string) list"
  | P_exception_group_tracebacks exc_formatter
  | ExceptionRenderer exc_formatter
  | UnicodeDecoder
  | JSONRenderer
  | P_json_processor
  | P_stdlib_add_log_level
  | P_stdlib_add_logger_name
  | P_remove_processors_meta
  | P_drop_positional_args
  | P_None

text \<open>
  What one run of the body of \<^verbatim>\<open>logging_processors\<close> returns: the list
  \<^verbatim>\<open>processors\<close> and the dict \<^verbatim>\<open>named\<close>. \<open>lp_id\<close> is the identity of the objects
  that run created: two results are the same objects exactly when they carry the same
  \<open>lp_id\<close>.
\<close>

record lp_result =
  lp_id :: nat
  processors :: "processor list"
  named :: "(string \<times> processor) list"

text \<open>
  Lines 129 to 222. The level styles of the console are the library's defaults with
  \<^verbatim>\<open>my_styles["debug"] = structlog.dev.CYAN\<close>; only the override is kept.
\<close>

definition logging_processors_body :: "runtime \<Rightarrow> nat \<Rightarrow> bool \<Rightarrow> lp_result" where
  "logging_processors_body rt fresh enable_pretty_log =
     (let timestamper =
            (if enable_pretty_log then MaybeTimeStamper ''%Y-%m-%d %H:%M:%S.%f''
             else MaybeTimeStamper ''iso'');
          procs = [timestamper, P_merge_contextvars, P_add_log_level,
                   PositionalArgumentsFormatter, P_logger_name, P_redact_jwt,
                   StackInfoRenderer]
      in if enable_pretty_log then
           (let rich_exc_formatter = RichTracebackFormatter 0 30 False suppress;
                console = ConsoleRenderer rich_exc_formatter [(''debug'', ''CYAN'')]
            in \<lparr>lp_id = fresh,
                processors = procs @ [console],
                named = [(''timestamper'', timestamper), (''console'', console)]\<rparr>)
         else
           (let dict_exc_formatter = ExceptionDictTransformer False False suppress;
                dict_tracebacks = ExceptionRenderer dict_exc_formatter;
                exc_group_processor =
                  (if has_BaseExceptionGroup rt
                   then P_exception_group_tracebacks dict_exc_formatter
                   else P_None);
                procs1 = (if has_BaseExceptionGroup rt then procs @ [exc_group_processor]
                          else procs)
            in \<lparr>lp_id = fresh,
                processors = procs1 @ [dict_tracebacks, UnicodeDecoder, JSONRenderer],
                named = [(''timestamper'', timestamper),
                         (''exc_group_processor'', exc_group_processor),
                         (''dict_tracebacks'', dict_tracebacks),
                         (''json'', P_json_processor)]\<rparr>))"

section \<open>The exception formatter\<close>

text \<open>The exception formatter a processor chain ends up using.\<close>

fun exception_formatter_of :: "processor list \<Rightarrow> exc_formatter option" where
  "exception_formatter_of [] = None"
| "exception_formatter_of (ExceptionRenderer f # ps) = Some f"
| "exception_formatter_of (ConsoleRenderer f styles # ps) = Some f"
| "exception_formatter_of (p # ps) = exception_formatter_of ps"

section \<open>The process-wide state\<close>

text \<open>
  A warning handler: the runtime's own \<^verbatim>\<open>showwarning\<close>, some other callable, or this
  module's \<^verbatim>\<open>_showwarning\<close>.
\<close>

datatype handler = Default_showwarning | Other_handler nat | Airflow_showwarning

text \<open>What \<^verbatim>\<open>structlog.configure\<close> was last called with.\<close>

record structlog_config =
  cfg_processors :: lp_result
  cfg_cache_logger_on_first_use :: bool
  cfg_wrapper_level :: nat
  cfg_logger_factory :: "nat option option"

text \<open>What \<^verbatim>\<open>logging.config.dictConfig\<close> was last called with (lines 295 to 339).\<close>

record formatter_config =
  fmt_processors :: "processor list"
  foreign_pre_chain :: "processor list"

record dict_config =
  plain :: formatter_config
  colored :: formatter_config
  handlers_level :: string
  handlers_formatter :: string
  to_supervisor_stream :: "nat option"
  root_handlers :: "string list"
  root_level :: string
  airflow_level :: string
  httpx_level :: string
  sqlalchemy_engine_level :: string

text \<open>
  The key of a call of \<^verbatim>\<open>configure_logging\<close> in its cache: the arguments
  \<^verbatim>\<open>(enable_pretty_log, log_level, output, cache_logger_on_first_use)\<close>. A stream is
  known by its identity.
\<close>

type_synonym configure_args = "bool \<times> string \<times> nat option \<times> bool"

text \<open>
  The state the module reads and writes: the allocator of object identities, the two
  \<^verbatim>\<open>functools.cache\<close>s, \<^verbatim>\<open>warnings.showwarning\<close>, the module's global
  \<^verbatim>\<open>_warnings_showwarning\<close> (\<open>None\<close> is Python's \<^verbatim>\<open>None\<close> in both), and the last
  configuration structlog and the standard logging were given.
\<close>

record state =
  next_obj :: nat
  logging_processors_cache :: "(bool \<times> lp_result) list"
  configure_logging_cache :: "configure_args list"
  warnings_showwarning :: "handler option"
  saved_showwarning :: "handler option"
  structlog_configured :: "structlog_config option"
  logging_configured :: "dict_config option"

text \<open>The state of a process that has imported the module and called nothing yet.\<close>

definition initial_state :: state where
  "initial_state =
     \<lparr>next_obj = 0, logging_processors_cache = [], configure_logging_cache = [],
      warnings_showwarning = Some Default_showwarning, saved_showwarning = None,
      structlog_configured = None, logging_configured = None\<rparr>"

text \<open>\<^verbatim>\<open>@cache def logging_processors(enable_pretty_log)\<close>.\<close>

definition logging_processors :: "runtime \<Rightarrow> bool \<Rightarrow> state \<Rightarrow> lp_result \<times> state" where
  "logging_processors rt enable_pretty_log s =
     (case map_of (logging_processors_cache s) enable_pretty_log of
        Some r \<Rightarrow> (r, s)
      | None \<Rightarrow>
          (let r = logging_processors_body rt (next_obj s) enable_pretty_log
           in (r, s\<lparr>next_obj := Suc (next_obj s),
                     logging_processors_cache :=
                       (enable_pretty_log, r) # logging_processors_cache s\<rparr>)))"

section \<open>\<^verbatim>\<open>configure_logging\<close> and \<^verbatim>\<open>reset_logging\<close>\<close>

text \<open>
  Modelled from the spec: structlog's table \<^verbatim>\<open>NAME_TO_LEVEL\<close>, which is not under
  src/: its entries for the level names of the spec's input domain (section 6: debug,
  info, warning, error, critical), with the ordinals of the standard logging levels.
  Nothing below is stated about a level name outside that domain.
\<close>

definition NAME_TO_LEVEL :: "(string \<times> nat) list" where
  "NAME_TO_LEVEL =
     [(''debug'', 10), (''info'', 20), (''warning'', 30), (''error'', 40), (''critical'', 50)]"

text \<open>\<^verbatim>\<open>str.lower\<close> and \<^verbatim>\<open>str.upper\<close>, on the ASCII letters.\<close>

definition lower :: "string \<Rightarrow> string" where
  "lower s =
     map (\<lambda>c. case map_of (zip ''ABCDEFGHIJKLMNOPQRSTUVWXYZ'' ''abcdefghijklmnopqrstuvwxyz'') c of
                 None \<Rightarrow> c | Some d \<Rightarrow> d) s"

definition upper :: "string \<Rightarrow> string" where
  "upper s =
     map (\<lambda>c. case map_of (zip ''abcdefghijklmnopqrstuvwxyz'' ''ABCDEFGHIJKLMNOPQRSTUVWXYZ'') c of
                 None \<Rightarrow> c | Some d \<Rightarrow> d) s"

text \<open>\<^verbatim>\<open>d[k]\<close> on a dict: a missing key raises \<^verbatim>\<open>KeyError\<close>.\<close>

definition getitem :: "(string \<times> 'a) list \<Rightarrow> string \<Rightarrow> py_error + 'a" where
  "getitem d k = (case map_of d k of None \<Rightarrow> Inl (KeyError k) | Some v \<Rightarrow> Inr v)"

text \<open>How a call ends: with an exception or with a return, in the state it leaves.\<close>

datatype outcome = Raised py_error state | Returned state

text \<open>
  Lines 288 to 293: the warning bridge is installed when the saved reference is
  \<^verbatim>\<open>None\<close>.
\<close>

definition install_showwarning :: "state \<Rightarrow> state" where
  "install_showwarning s =
     (if saved_showwarning s = None
      then s\<lparr>saved_showwarning := warnings_showwarning s,
              warnings_showwarning := Some Airflow_showwarning\<rparr>
      else s)"

text \<open>Lines 295 to 339: the dict given to \<^verbatim>\<open>dictConfig\<close>.\<close>

definition logging_dict_config ::
  "string \<Rightarrow> string \<Rightarrow> nat option \<Rightarrow> processor list \<Rightarrow> processor list \<Rightarrow> processor list
     \<Rightarrow> dict_config" where
  "logging_dict_config log_level formatter output std_lib_formatter color_formatter pre_chain =
     \<lparr>plain = \<lparr>fmt_processors = std_lib_formatter, foreign_pre_chain = pre_chain\<rparr>,
      colored = \<lparr>fmt_processors = color_formatter, foreign_pre_chain = pre_chain\<rparr>,
      handlers_level = upper log_level,
      handlers_formatter = formatter,
      to_supervisor_stream = output,
      root_handlers = [if output \<noteq> None then ''to_supervisor'' else ''default''],
      root_level = ''INFO'',
      airflow_level = upper log_level,
      httpx_level = ''WARN'',
      sqlalchemy_engine_level = ''WARN''\<rparr>"

text \<open>
  The body of \<^verbatim>\<open>configure_logging\<close> (lines 233 to 339), in the order of the source.
  The calls into structlog and the standard logging are taken to return.
\<close>

definition configure_logging_body ::
  "runtime \<Rightarrow> bool \<Rightarrow> string \<Rightarrow> nat option \<Rightarrow> bool \<Rightarrow> state \<Rightarrow> outcome" where
  "configure_logging_body rt enable_pretty_log log_level output cache_logger_on_first_use s =
     (if enable_pretty_log \<and> output \<noteq> None
      then Raised (ValueError ''output can only be set if enable_pretty_log is not'') s
      else case getitem NAME_TO_LEVEL (lower log_level) of
        Inl e \<Rightarrow> Raised e s
      | Inr lvl \<Rightarrow>
        (let formatter = (if enable_pretty_log then ''colored'' else ''plain'');
             (r, s1) = logging_processors rt enable_pretty_log s
         in case getitem (named r) ''timestamper'' of
           Inl e \<Rightarrow> Raised e s1
         | Inr timestamper \<Rightarrow>
           (let pre_chain = [P_stdlib_add_log_level, P_stdlib_add_logger_name, timestamper];
                cache_flag = (if pytest_current_test rt then False else cache_logger_on_first_use);
                color_formatter = [P_remove_processors_meta, P_drop_positional_args];
                std_lib_formatter = [P_remove_processors_meta, P_drop_positional_args]
            in if enable_pretty_log then
                 (let s2 = s1\<lparr>structlog_configured :=
                            Some \<lparr>cfg_processors = r, cfg_cache_logger_on_first_use = cache_flag,
                                  cfg_wrapper_level = lvl, cfg_logger_factory = None\<rparr>\<rparr>
                  in case getitem (named r) ''console'' of
                    Inl e \<Rightarrow> Raised e s2
                  | Inr console \<Rightarrow>
                    (let s3 = install_showwarning s2
                     in Returned (s3\<lparr>logging_configured :=
                          Some (logging_dict_config log_level formatter output
                                  std_lib_formatter (color_formatter @ [console]) pre_chain)\<rparr>)))
               else
                 (let s2 = s1\<lparr>structlog_configured :=
                            Some \<lparr>cfg_processors = r, cfg_cache_logger_on_first_use = cache_flag,
                                  cfg_wrapper_level = lvl, cfg_logger_factory = Some output\<rparr>\<rparr>
                  in case getitem (named r) ''exc_group_processor'' of
                    Inl e \<Rightarrow> Raised e s2
                  | Inr processor \<Rightarrow>
                    (let pre_chain1 = (if processor \<noteq> P_None then pre_chain @ [processor]
                                       else pre_chain)
                     in case getitem (named r) ''dict_tracebacks'' of
                       Inl e \<Rightarrow> Raised e s2
                     | Inr dict_tracebacks \<Rightarrow>
                       (case getitem (named r) ''json'' of
                          Inl e \<Rightarrow> Raised e s2
                        | Inr json \<Rightarrow>
                          (let s3 = install_showwarning s2
                           in Returned (s3\<lparr>logging_configured :=
                                Some (logging_dict_config log_level formatter output
                                        (std_lib_formatter @ [json]) (color_formatter @ [json])
                                        (pre_chain1 @ [dict_tracebacks]))\<rparr>))))))))"

text \<open>
  \<^verbatim>\<open>@cache def configure_logging(...)\<close>: a call whose arguments are in the cache
  returns at once; a call that raises is not cached.
\<close>

definition configure_logging ::
  "runtime \<Rightarrow> bool \<Rightarrow> string \<Rightarrow> nat option \<Rightarrow> bool \<Rightarrow> state \<Rightarrow> outcome" where
  "configure_logging rt enable_pretty_log log_level output cache_logger_on_first_use s =
     (let key = (enable_pretty_log, log_level, output, cache_logger_on_first_use)
      in if key \<in> set (configure_logging_cache s) then Returned s
         else case configure_logging_body rt enable_pretty_log log_level output
                     cache_logger_on_first_use s of
                Raised e s' \<Rightarrow> Raised e s'
              | Returned s' \<Rightarrow>
                  Returned (s'\<lparr>configure_logging_cache := key # configure_logging_cache s'\<rparr>))"

text \<open>Lines 342 to 345.\<close>

definition reset_logging :: "state \<Rightarrow> state" where
  "reset_logging s =
     s\<lparr>warnings_showwarning := saved_showwarning s, configure_logging_cache := []\<rparr>"

text \<open>The pipeline structlog is configured with, by identity.\<close>

definition pipeline_id :: "state \<Rightarrow> nat option" where
  "pipeline_id s = map_option (\<lambda>c. lp_id (cfg_processors c)) (structlog_configured s)"

section \<open>The warning bridge\<close>

text \<open>
  A call of a warning handler: \<^verbatim>\<open>str(message)\<close>, \<^verbatim>\<open>category.__name__\<close>,
  \<^verbatim>\<open>filename\<close>, \<^verbatim>\<open>lineno\<close>, \<^verbatim>\<open>file\<close> (a stream, by identity, or \<^verbatim>\<open>None\<close>) and
  \<^verbatim>\<open>line\<close>.
\<close>

record warning_call =
  w_message :: string
  w_category :: string
  w_filename :: string
  w_lineno :: int
  w_file :: "nat option"
  w_line :: "string option"

text \<open>
  A call \<^verbatim>\<open>structlog.get_logger(**initial_values).<method>(event, **event_kw)\<close>.
\<close>

record log_call =
  initial_values :: event_dict
  method_name :: string
  event :: string
  event_kw :: event_dict

datatype bridge_effect =
    Delegated handler warning_call
  | Logged log_call
  | Nothing_done

text \<open>Lines 351 to 373: \<^verbatim>\<open>_showwarning\<close>.\<close>

definition showwarning :: "state \<Rightarrow> warning_call \<Rightarrow> bridge_effect" where
  "showwarning s w =
     (if w_file w \<noteq> None
      then (case saved_showwarning s of
              Some h \<Rightarrow> Delegated h w
            | None \<Rightarrow> Nothing_done)
      else Logged \<lparr>initial_values = [(''logger_name'', VStr ''py.warnings'')],
                   method_name = ''warning'',
                   event = w_message w,
                   event_kw = [(''category'', VStr (w_category w)),
                               (''filename'', VStr (w_filename w)),
                               (''lineno'', VInt (w_lineno w))]\<rparr>)"

text \<open>
  The runtime shows a warning by calling the object that \<^verbatim>\<open>warnings.showwarning\<close>
  holds; \<^verbatim>\<open>None\<close> cannot be called.
\<close>

datatype warning_outcome =
    Shown_by handler warning_call
  | Bridged bridge_effect
  | Not_callable

definition call_showwarning :: "state \<Rightarrow> warning_call \<Rightarrow> warning_outcome" where
  "call_showwarning s w =
     (case warnings_showwarning s of
        None \<Rightarrow> Not_callable
      | Some Airflow_showwarning \<Rightarrow> Bridged (showwarning s w)
      | Some h \<Rightarrow> Shown_by h w)"

text \<open>
  The event dict structlog builds for a call, before the processors run: the bound
  values, then the keyword arguments, then \<^verbatim>\<open>event\<close>.
\<close>

definition bound_event :: "log_call \<Rightarrow> event_dict" where
  "bound_event c =
     AList.update ''event'' (VStr (event c))
       (fold (\<lambda>(k, v). AList.update k v) (event_kw c) (initial_values c))"

section \<open>The sink adapter\<close>

text \<open>
  A binary stream: the bytes written so far, the number of flushes, and the exception
  its \<^verbatim>\<open>write\<close> or its \<^verbatim>\<open>flush\<close> raises, if it does.
\<close>

record stream =
  content :: "char list"
  flushes :: nat
  write_raises :: "py_error option"
  flush_raises :: "py_error option"

definition stream_write :: "char list \<Rightarrow> stream \<Rightarrow> py_error + stream" where
  "stream_write buffer st =
     (case write_raises st of
        Some e \<Rightarrow> Inl e
      | None \<Rightarrow> Inr (st\<lparr>content := content st @ buffer\<rparr>))"

definition stream_flush :: "stream \<Rightarrow> py_error + stream" where
  "stream_flush st =
     (case flush_raises st of
        Some e \<Rightarrow> Inl e
      | None \<Rightarrow> Inr (st\<lparr>flushes := Suc (flushes st)\<rparr>))"

text \<open>
  A \<^verbatim>\<open>StdBinaryStreamHandler\<close>: its stream and the records it has passed to
  \<^verbatim>\<open>handleError\<close>.
\<close>

record 'r stream_handler =
  handler_stream :: stream
  handled_errors :: "'r list"

text \<open>\<^verbatim>\<open>handleError\<close> is the library's; it is taken to return, and the call is recorded.\<close>

definition handleError :: "'r \<Rightarrow> 'r stream_handler \<Rightarrow> 'r stream_handler" where
  "handleError r h = h\<lparr>handled_errors := handled_errors h @ [r]\<rparr>"

text \<open>
  The \<^verbatim>\<open>try\<close> block of \<^verbatim>\<open>emit\<close> (lines 111 to 118). \<open>format\<close> is
  \<^verbatim>\<open>self.format\<close>, which may raise; the message is a list of code points, and
  \<open>utf8_backslashreplace\<close> is \<^verbatim>\<open>bytearray(msg, "utf-8", "backslashreplace")\<close>.
\<close>

definition emit_try ::
  "(nat list \<Rightarrow> char list) \<Rightarrow> ('r \<Rightarrow> py_error + nat list) \<Rightarrow> 'r \<Rightarrow> stream
     \<Rightarrow> py_error \<times> stream + stream" where
  "emit_try utf8_backslashreplace format r st =
     (case format r of
        Inl e \<Rightarrow> Inl (e, st)
      | Inr msg \<Rightarrow>
          (let buffer = utf8_backslashreplace msg;
               buffer1 = buffer @ [CHR 0x0A]
           in case stream_write buffer1 st of
                Inl e \<Rightarrow> Inl (e, st)
              | Inr st1 \<Rightarrow>
                  (case stream_flush st1 of
                     Inl e \<Rightarrow> Inl (e, st1)
                   | Inr st2 \<Rightarrow> Inr st2)))"

datatype 'r emit_outcome =
    Emit_raised py_error "'r stream_handler"
  | Emit_returned "'r stream_handler"

text \<open>
  \<^verbatim>\<open>emit\<close> with its handlers: \<^verbatim>\<open>except RecursionError: raise\<close>, then
  \<^verbatim>\<open>except Exception: self.handleError(record)\<close>; what neither clause catches
  propagates.
\<close>

definition emit ::
  "(nat list \<Rightarrow> char list) \<Rightarrow> ('r \<Rightarrow> py_error + nat list) \<Rightarrow> 'r \<Rightarrow> 'r stream_handler
     \<Rightarrow> 'r emit_outcome" where
  "emit utf8_backslashreplace format r h =
     (case emit_try utf8_backslashreplace format r (handler_stream h) of
        Inr st \<Rightarrow> Emit_returned (h\<lparr>handler_stream := st\<rparr>)
      | Inl (e, st) \<Rightarrow>
          if e = RecursionError then Emit_raised e (h\<lparr>handler_stream := st\<rparr>)
          else if isinstance_Exception e
          then Emit_returned (handleError r (h\<lparr>handler_stream := st\<rparr>))
          else Emit_raised e (h\<lparr>handler_stream := st\<rparr>))"

section \<open>Notions the properties are stated with\<close>

text \<open>The value redaction leaves in a field that holds \<open>v\<close>.\<close>

definition redacted :: "pyval \<Rightarrow> pyval" where
  "redacted v = (if isinstance_str v \<and> startswith v ''eyJ'' then VStr ''eyJ***'' else v)"

text \<open>The state a call leaves.\<close>

fun state_of :: "outcome \<Rightarrow> state" where
  "state_of (Raised e s) = s"
| "state_of (Returned s) = s"

text \<open>
  The states a process can be in: it starts in \<^const>\<open>initial_state\<close>, calls
  \<^verbatim>\<open>configure_logging\<close>, \<^verbatim>\<open>logging_processors\<close> and \<^verbatim>\<open>reset_logging\<close>, and other code
  may assign \<^verbatim>\<open>warnings.showwarning\<close>.
\<close>

inductive reachable :: "runtime \<Rightarrow> state \<Rightarrow> bool" for rt :: runtime where
  reachable_initial: "reachable rt initial_state"
| reachable_configure:
    "reachable rt s \<Longrightarrow>
       reachable rt (state_of (configure_logging rt enable_pretty_log log_level output
                                 cache_logger_on_first_use s))"
| reachable_processors:
    "reachable rt s \<Longrightarrow> reachable rt (snd (logging_processors rt enable_pretty_log s))"
| reachable_reset: "reachable rt s \<Longrightarrow> reachable rt (reset_logging s)"
| reachable_showwarning: "reachable rt s \<Longrightarrow> reachable rt (s\<lparr>warnings_showwarning := h\<rparr>)"

text \<open>
  What the two caches hold in every such state: results of the builder's body, and
  the arguments of calls that returned.
\<close>

definition caches_ok :: "runtime \<Rightarrow> state \<Rightarrow> bool" where
  "caches_ok rt s =
     (list_all (\<lambda>(p, r). r = logging_processors_body rt (lp_id r) p) (logging_processors_cache s)
      \<and> list_all (\<lambda>(p, l, out, c). \<not> (p \<and> out \<noteq> None) \<and> lower l \<in> fst ` set NAME_TO_LEVEL)
           (configure_logging_cache s))"

text \<open>
  Two runtimes, both outside a test run and with no exception in flight: one where the
  \<^verbatim>\<open>hasattr\<close> expression is true, and one where it is false, as it is wherever the module
  is imported.
\<close>

definition plain_runtime :: runtime where
  "plain_runtime =
     \<lparr>has_BaseExceptionGroup = True, pytest_current_test = False, sys_exc_info = None\<rparr>"

definition imported_runtime :: runtime where
  "imported_runtime =
     \<lparr>has_BaseExceptionGroup = False, pytest_current_test = False, sys_exc_info = None\<rparr>"

text \<open>A formatter for examples: it gives one record for an exception.\<close>

definition one_record :: "exn \<Rightarrow> pyval list" where
  "one_record e = [VStr (type_name e)]"

text \<open>
  For examples: an encoder that is right on ASCII messages, and a stream that accepts
  every write and flush.
\<close>

definition ascii_bytes :: "nat list \<Rightarrow> char list" where
  "ascii_bytes msg = map char_of msg"

definition open_stream :: stream where
  "open_stream = \<lparr>content = [], flushes = 0, write_raises = None, flush_raises = None\<rparr>"

section \<open>Token redaction\<close>

lemma alist_update_nth:
  "distinct (map fst al) \<Longrightarrow> i < length al \<Longrightarrow>
     AList.update (fst (al ! i)) w al = al[i := (fst (al ! i), w)]"
proof (induction al arbitrary: i)
  case Nil
  then show ?case by simp
next
  case (Cons p ps)
  show ?case
  proof (cases i)
    case 0
    then show ?thesis by simp
  next
    case (Suc j)
    with Cons.prems have j: "j < length ps" and d: "distinct (map fst ps)"
      and notin: "fst p \<notin> fst ` set ps" by auto
    from j have "fst (ps ! j) \<in> fst ` set ps" by simp
    with notin have "fst p \<noteq> fst (ps ! j)" by metis
    with Suc Cons.IH [OF d j] show ?thesis by simp
  qed
qed

lemma redact_step_nth:
  assumes "distinct (map fst ev)" and "i < length ev"
  shows "redact_step (ev ! i) ev = ev[i := (fst (ev ! i), redacted (snd (ev ! i)))]"
proof (cases "ev ! i")
  case (Pair k v)
  from alist_update_nth [OF assms, of "VStr ''eyJ***''"] Pair
  have "AList.update k (VStr ''eyJ***'') ev = ev[i := (k, VStr ''eyJ***'')]" by simp
  moreover from Pair have "ev[i := (k, v)] = ev"
    by (metis list_update_id)
  ultimately show ?thesis
    by (simp add: redact_step_def redacted_def Pair)
qed

lemma redact_jwt_loop_eq:
  "distinct (map fst ev) \<Longrightarrow> i \<le> length ev \<Longrightarrow>
     redact_jwt_loop i ev = take i ev @ map (\<lambda>(k, v). (k, redacted v)) (drop i ev)"
proof (induction i ev rule: redact_jwt_loop.induct)
  case (1 i ev)
  show ?case
  proof (cases "i < length ev")
    case False
    with "1.prems" show ?thesis by simp
  next
    case True
    let ?x = "(fst (ev ! i), redacted (snd (ev ! i)))"
    let ?ev = "ev[i := ?x]"
    have step: "redact_step (ev ! i) ev = ?ev"
      by (rule redact_step_nth [OF "1.prems"(1) True])
    have keys: "map fst ?ev = map fst ev"
      using True by (simp add: map_update list_update_same_conv)
    have d: "distinct (map fst ?ev)" using "1.prems"(1) keys by simp
    have l: "Suc i \<le> length ?ev" using True by simp
    have "redact_jwt_loop i ev = redact_jwt_loop (Suc i) ?ev"
      using True step by simp
    also have "\<dots> = take (Suc i) ?ev @ map (\<lambda>(k, v). (k, redacted v)) (drop (Suc i) ?ev)"
      using "1.IH" [OF True] d l step by simp
    also have "take (Suc i) ?ev = take i ev @ [?x]"
      using True by (simp add: take_Suc_conv_app_nth)
    also have "drop (Suc i) ?ev = drop (Suc i) ev" by simp
    finally show ?thesis
      using True by (simp add: Cons_nth_drop_Suc [symmetric] case_prod_beta)
  qed
qed

lemma redacted_id: "\<not> (isinstance_str v \<and> startswith v ''eyJ'') \<Longrightarrow> redacted v = v"
  by (auto simp: redacted_def)

text \<open>
  C2. On an event dict (distinct keys), \<^verbatim>\<open>redact_jwt\<close> keeps the fields and their
  order, puts \<^verbatim>\<open>"eyJ***"\<close> in every field whose value is a string that starts with
  \<^verbatim>\<open>"eyJ"\<close>, leaves every other value as it is, and returns an event with no such
  field unchanged.
\<close>

theorem redact_jwt_redacts:
  assumes "distinct (map fst event_dict)"
  shows "redact_jwt event_dict = map (\<lambda>(k, v). (k, redacted v)) event_dict
       \<and> map fst (redact_jwt event_dict) = map fst event_dict
       \<and> (\<forall>i < length event_dict.
            snd (redact_jwt event_dict ! i) =
              (if isinstance_str (snd (event_dict ! i)) \<and> startswith (snd (event_dict ! i)) ''eyJ''
               then VStr ''eyJ***'' else snd (event_dict ! i)))
       \<and> ((\<forall>(k, v) \<in> set event_dict. \<not> (isinstance_str v \<and> startswith v ''eyJ''))
            \<longrightarrow> redact_jwt event_dict = event_dict)"
proof -
  have eq: "redact_jwt event_dict = map (\<lambda>(k, v). (k, redacted v)) event_dict"
    using redact_jwt_loop_eq [OF assms, of 0] by (simp add: redact_jwt_def)
  have keys: "map fst (redact_jwt event_dict) = map fst event_dict"
    unfolding eq by (induction event_dict) auto
  have vals: "\<forall>i < length event_dict.
      snd (redact_jwt event_dict ! i) =
        (if isinstance_str (snd (event_dict ! i)) \<and> startswith (snd (event_dict ! i)) ''eyJ''
         then VStr ''eyJ***'' else snd (event_dict ! i))"
    unfolding eq by (simp add: case_prod_beta redacted_def)
  have same: "redact_jwt event_dict = event_dict"
    if "\<forall>(k, v) \<in> set event_dict. \<not> (isinstance_str v \<and> startswith v ''eyJ'')"
  proof -
    from that have "map (\<lambda>(k, v). (k, redacted v)) event_dict = map (\<lambda>kv. kv) event_dict"
      by (intro map_cong refl) (auto simp: redacted_id)
    with eq show ?thesis by simp
  qed
  from eq keys vals same show ?thesis by blast
qed

theorem redact_jwt_redacts_witness:
  "redact_jwt [(''event'', VStr ''task finished''), (''token'', VStr ''eyJabc''), (''n'', VInt 3)]
     = [(''event'', VStr ''task finished''), (''token'', VStr ''eyJ***''), (''n'', VInt 3)]
   \<and> redact_jwt [(''event'', VStr ''task finished''), (''n'', VInt 3)]
     = [(''event'', VStr ''task finished''), (''n'', VInt 3)]"
  using redact_jwt_redacts
          [of "[(''event'', VStr ''task finished''), (''token'', VStr ''eyJabc''), (''n'', VInt 3)]"]
        redact_jwt_redacts [of "[(''event'', VStr ''task finished''), (''n'', VInt 3)]"]
  by (simp add: redacted_def isinstance_str_def startswith_def)

section \<open>Exception groups\<close>

text \<open>What the processor returns, for every runtime, formatter and event.\<close>

lemma exception_group_tracebacks_result:
  "exception_group_tracebacks rt format_exception event_dict =
     (case map_of event_dict ''exc_info'' of
        None \<Rightarrow> Inr event_dict
      | Some v \<Rightarrow>
          if truthy v \<and> has_BaseExceptionGroup rt
          then Inl (NameError ''BaseExceptionGroup'')
          else Inr event_dict)"
  by (auto simp: exception_group_tracebacks_def select_group_def select_group_elif_def
        isinstance_BaseExceptionGroup_def
        split: option.splits pyval.splits list.splits)

text \<open>
  C5. The processor at an event whose failure info is a group of two sub-failures. Where
  the \<^verbatim>\<open>hasattr\<close> expression is true it raises \<^verbatim>\<open>NameError\<close>; where it is false (the
  module imported) it returns the event as it was, with \<^verbatim>\<open>exc_info\<close> in place and no
  \<^verbatim>\<open>exception\<close> field, for the instance and for the triple alike. It flattens in neither.
\<close>

theorem exception_group_tracebacks_group_event:
  "exception_group_tracebacks plain_runtime one_record
     [(''event'', VStr ''boom''),
      (''exc_info'', VExc (ExnGroup ''ExceptionGroup'' ''two failures''
                             [Exn ''ValueError'' ''a'', Exn ''KeyError'' ''b'']))]
     = Inl (NameError ''BaseExceptionGroup'')
   \<and> exception_group_tracebacks imported_runtime one_record
     [(''event'', VStr ''boom''),
      (''exc_info'', VExc (ExnGroup ''ExceptionGroup'' ''two failures''
                             [Exn ''ValueError'' ''a'', Exn ''KeyError'' ''b'']))]
     = Inr [(''event'', VStr ''boom''),
            (''exc_info'', VExc (ExnGroup ''ExceptionGroup'' ''two failures''
                                   [Exn ''ValueError'' ''a'', Exn ''KeyError'' ''b'']))]
   \<and> exception_group_tracebacks imported_runtime one_record
     [(''event'', VStr ''boom''),
      (''exc_info'', VTuple [VType ''ExceptionGroup'',
                             VExc (ExnGroup ''ExceptionGroup'' ''two failures''
                                     [Exn ''ValueError'' ''a'', Exn ''KeyError'' ''b'']),
                             VTraceback])]
     = Inr [(''event'', VStr ''boom''),
            (''exc_info'', VTuple [VType ''ExceptionGroup'',
                             VExc (ExnGroup ''ExceptionGroup'' ''two failures''
                                     [Exn ''ValueError'' ''a'', Exn ''KeyError'' ''b'']),
                             VTraceback])]"
  by (simp add: exception_group_tracebacks_result plain_runtime_def imported_runtime_def)

section \<open>The caches\<close>

lemma lp_id_body: "lp_id (logging_processors_body rt n p) = n"
  by (simp add: logging_processors_body_def Let_def)

lemma getitem_named_pretty:
  "getitem (named (logging_processors_body rt n True)) ''timestamper''
     = Inr (MaybeTimeStamper ''%Y-%m-%d %H:%M:%S.%f'')"
  "getitem (named (logging_processors_body rt n True)) ''console''
     = Inr (ConsoleRenderer (RichTracebackFormatter 0 30 False suppress) [(''debug'', ''CYAN'')])"
  by (simp_all add: getitem_def logging_processors_body_def Let_def)

lemma getitem_named_structured:
  "getitem (named (logging_processors_body rt n False)) ''timestamper'' = Inr (MaybeTimeStamper ''iso'')"
  "getitem (named (logging_processors_body rt n False)) ''exc_group_processor''
     = Inr (if has_BaseExceptionGroup rt
            then P_exception_group_tracebacks (ExceptionDictTransformer False False suppress)
            else P_None)"
  "getitem (named (logging_processors_body rt n False)) ''dict_tracebacks''
     = Inr (ExceptionRenderer (ExceptionDictTransformer False False suppress))"
  "getitem (named (logging_processors_body rt n False)) ''json'' = Inr P_json_processor"
  by (simp_all add: getitem_def logging_processors_body_def Let_def)

lemma logging_processors_result:
  assumes "caches_ok rt s" and "logging_processors rt p s = (r, s1)"
  shows "r = logging_processors_body rt (lp_id r) p" and "caches_ok rt s1"
    and "map_of (logging_processors_cache s1) p = Some r"
    and "configure_logging_cache s1 = configure_logging_cache s"
    and "warnings_showwarning s1 = warnings_showwarning s"
    and "saved_showwarning s1 = saved_showwarning s"
proof -
  show "r = logging_processors_body rt (lp_id r) p"
  proof (cases "map_of (logging_processors_cache s) p")
    case None
    with assms(2) have "r = logging_processors_body rt (next_obj s) p"
      by (auto simp: logging_processors_def Let_def)
    then show ?thesis
      by (simp add: lp_id_body)
  next
    case (Some r')
    with assms(2) have "r' = r" by (simp add: logging_processors_def)
    with Some have "(p, r) \<in> set (logging_processors_cache s)" by (simp add: map_of_SomeD)
    with assms(1) show ?thesis
      by (auto simp: caches_ok_def list_all_iff)
  qed
  then show "caches_ok rt s1"
    using assms by (auto simp: caches_ok_def logging_processors_def Let_def split: option.splits)
  show "map_of (logging_processors_cache s1) p = Some r"
    using assms(2) by (auto simp: logging_processors_def Let_def split: option.splits)
  show "configure_logging_cache s1 = configure_logging_cache s"
    using assms(2) by (auto simp: logging_processors_def Let_def split: option.splits)
  show "warnings_showwarning s1 = warnings_showwarning s"
    using assms(2) by (auto simp: logging_processors_def Let_def split: option.splits)
  show "saved_showwarning s1 = saved_showwarning s"
    using assms(2) by (auto simp: logging_processors_def Let_def split: option.splits)
qed

lemma caches_ok_cong:
  "logging_processors_cache s' = logging_processors_cache s \<Longrightarrow>
   configure_logging_cache s' = configure_logging_cache s \<Longrightarrow>
   caches_ok rt s \<Longrightarrow> caches_ok rt s'"
  by (simp add: caches_ok_def)

lemma body_returns:
  assumes ok: "caches_ok rt s"
    and pre: "\<not> (p \<and> out \<noteq> None)"
    and lvl: "map_of NAME_TO_LEVEL (lower l) = Some n"
    and lp: "logging_processors rt p s = (r, s1)"
  shows "\<exists>s'. configure_logging_body rt p l out c s = Returned s'
           \<and> logging_processors_cache s' = logging_processors_cache s1
           \<and> configure_logging_cache s' = configure_logging_cache s
           \<and> next_obj s' = next_obj s1
           \<and> map_option cfg_processors (structlog_configured s') = Some r
           \<and> saved_showwarning s' =
               (if saved_showwarning s = None then warnings_showwarning s else saved_showwarning s)
           \<and> warnings_showwarning s' =
               (if saved_showwarning s = None then Some Airflow_showwarning
                else warnings_showwarning s)"
proof -
  note res = logging_processors_result [OF ok lp]
  have g: "getitem NAME_TO_LEVEL (lower l) = Inr n"
    using lvl by (simp add: getitem_def)
  show ?thesis
  proof (cases p)
    case True
    have t: "getitem (named r) ''timestamper'' = Inr (MaybeTimeStamper ''%Y-%m-%d %H:%M:%S.%f'')"
      and co: "getitem (named r) ''console''
        = Inr (ConsoleRenderer (RichTracebackFormatter 0 30 False suppress) [(''debug'', ''CYAN'')])"
      using res(1) True getitem_named_pretty [of rt "lp_id r"] by simp_all
    show ?thesis
      using pre True g lp t co res(4,5,6)
      by (simp add: configure_logging_body_def Let_def install_showwarning_def)
  next
    case False
    have t: "getitem (named r) ''timestamper'' = Inr (MaybeTimeStamper ''iso'')"
      and eg: "getitem (named r) ''exc_group_processor''
        = Inr (if has_BaseExceptionGroup rt
               then P_exception_group_tracebacks (ExceptionDictTransformer False False suppress)
               else P_None)"
      and dt: "getitem (named r) ''dict_tracebacks''
        = Inr (ExceptionRenderer (ExceptionDictTransformer False False suppress))"
      and js: "getitem (named r) ''json'' = Inr P_json_processor"
      using res(1) False getitem_named_structured [of rt "lp_id r"] by simp_all
    show ?thesis
      using False g lp t eg dt js res(4,5,6)
      by (simp add: configure_logging_body_def Let_def install_showwarning_def)
  qed
qed

lemma body_raises_precondition:
  "p \<and> out \<noteq> None \<Longrightarrow>
     configure_logging_body rt p l out c s =
       Raised (ValueError ''output can only be set if enable_pretty_log is not'') s"
  by (simp add: configure_logging_body_def)

lemma body_raises_level:
  "\<not> (p \<and> out \<noteq> None) \<Longrightarrow> map_of NAME_TO_LEVEL (lower l) = None \<Longrightarrow>
     configure_logging_body rt p l out c s = Raised (KeyError (lower l)) s"
  by (simp add: configure_logging_body_def getitem_def)

lemma level_lookup:
  "(map_of NAME_TO_LEVEL k = None) = (k \<notin> fst ` set NAME_TO_LEVEL)"
  by (simp add: map_of_eq_None_iff)

lemma caches_ok_configure:
  assumes ok: "caches_ok rt s"
  shows "caches_ok rt (state_of (configure_logging rt p l out c s))"
proof (cases "(p, l, out, c) \<in> set (configure_logging_cache s)")
  case True
  with ok show ?thesis by (simp add: configure_logging_def)
next
  case miss: False
  show ?thesis
  proof (cases "p \<and> out \<noteq> None")
    case True
    with miss ok show ?thesis
      by (simp add: configure_logging_def body_raises_precondition)
  next
    case pre: False
    show ?thesis
    proof (cases "map_of NAME_TO_LEVEL (lower l)")
      case None
      with miss ok pre show ?thesis
        by (simp add: configure_logging_def body_raises_level)
    next
      case (Some n)
      obtain r s1 where lp: "logging_processors rt p s = (r, s1)"
        by (cases "logging_processors rt p s")
      from body_returns [OF ok pre Some lp, of c]
      obtain s' where b: "configure_logging_body rt p l out c s = Returned s'"
        and c1: "logging_processors_cache s' = logging_processors_cache s1"
        and c2: "configure_logging_cache s' = configure_logging_cache s"
        by blast
      have ok1: "caches_ok rt s1" by (rule logging_processors_result(2) [OF ok lp])
      have key: "lower l \<in> fst ` set NAME_TO_LEVEL"
        using Some level_lookup [of "lower l"] by simp
      show ?thesis
        using miss b c1 c2 ok ok1 pre key
        by (auto simp: configure_logging_def caches_ok_def)
    qed
  qed
qed

lemma reachable_caches_ok: "reachable rt s \<Longrightarrow> caches_ok rt s"
proof (induction rule: reachable.induct)
  case reachable_initial
  show ?case by (simp add: caches_ok_def initial_state_def)
next
  case (reachable_configure s p l out c)
  then show ?case by (simp add: caches_ok_configure)
next
  case (reachable_processors s p)
  then show ?case
    using logging_processors_result(2) [of rt s p] by (cases "logging_processors rt p s") auto
next
  case (reachable_reset s)
  then show ?case by (simp add: caches_ok_def reset_logging_def)
next
  case (reachable_showwarning s h)
  then show ?case by (simp add: caches_ok_def)
qed

section \<open>Configuration\<close>

text \<open>
  C1. In every reachable state, a call with \<^verbatim>\<open>enable_pretty_log\<close> true and an output
  stream fails the precondition check: it raises the \<^verbatim>\<open>ValueError\<close> at once and leaves
  the state as it was, whatever the other arguments are. A call with
  \<^verbatim>\<open>enable_pretty_log\<close> true and no output returns, for every level name of the input
  domain (debug, info, warning, error, critical, in any case of the letters).
\<close>

theorem configure_logging_pretty:
  assumes "reachable rt s"
  shows "(output \<noteq> None \<longrightarrow>
            configure_logging rt True log_level output cache_logger_on_first_use s =
              Raised (ValueError ''output can only be set if enable_pretty_log is not'') s)
       \<and> (lower log_level \<in> {''debug'', ''info'', ''warning'', ''error'', ''critical''} \<longrightarrow>
            (\<exists>s'. configure_logging rt True log_level None cache_logger_on_first_use s =
                    Returned s'))"
proof -
  have ok: "caches_ok rt s" by (rule reachable_caches_ok [OF assms])
  have a: "configure_logging rt True log_level output cache_logger_on_first_use s =
              Raised (ValueError ''output can only be set if enable_pretty_log is not'') s"
    if "output \<noteq> None"
  proof -
    from ok that have "(True, log_level, output, cache_logger_on_first_use)
        \<notin> set (configure_logging_cache s)"
      by (auto simp: caches_ok_def list_all_iff)
    with that show ?thesis
      by (simp add: configure_logging_def body_raises_precondition)
  qed
  have b: "\<exists>s'. configure_logging rt True log_level None cache_logger_on_first_use s = Returned s'"
    if "lower log_level \<in> {''debug'', ''info'', ''warning'', ''error'', ''critical''}"
  proof (cases "(True, log_level, None, cache_logger_on_first_use) \<in> set (configure_logging_cache s)")
    case True
    then show ?thesis by (simp add: configure_logging_def)
  next
    case False
    from that have "lower log_level \<in> fst ` set NAME_TO_LEVEL"
      by (auto simp: NAME_TO_LEVEL_def)
    then obtain n where n: "map_of NAME_TO_LEVEL (lower log_level) = Some n"
      using level_lookup [of "lower log_level"] by auto
    obtain r s1 where lp: "logging_processors rt True s = (r, s1)"
      by (cases "logging_processors rt True s")
    from body_returns [OF ok _ n lp, of None cache_logger_on_first_use]
    obtain s' where "configure_logging_body rt True log_level None cache_logger_on_first_use s
        = Returned s'" by auto
    with False show ?thesis by (simp add: configure_logging_def)
  qed
  from a b show ?thesis by blast
qed

theorem configure_logging_pretty_witness:
  "configure_logging plain_runtime True ''DEBUG'' (Some 1) True initial_state =
     Raised (ValueError ''output can only be set if enable_pretty_log is not'') initial_state
   \<and> (\<exists>s'. configure_logging plain_runtime True ''Info'' None True initial_state = Returned s')"
  using configure_logging_pretty [OF reachable_initial, of "Some 1" plain_runtime "''DEBUG''" True]
        configure_logging_pretty [OF reachable_initial, of None plain_runtime "''Info''" True]
  by (simp add: lower_def)

lemma logging_processors_cached:
  "map_of (logging_processors_cache s) p = Some r \<Longrightarrow> logging_processors rt p s = (r, s)"
  by (simp add: logging_processors_def)

lemma logging_processors_twice:
  "logging_processors rt p (snd (logging_processors rt p s)) = logging_processors rt p s"
  by (cases "map_of (logging_processors_cache s) p")
     (simp_all add: logging_processors_def Let_def)

lemma configure_returned_cases:
  assumes "configure_logging rt p l out c s = Returned s1"
  shows "((p, l, out, c) \<in> set (configure_logging_cache s) \<and> s1 = s)
       \<or> ((p, l, out, c) \<notin> set (configure_logging_cache s)
           \<and> (\<exists>s'. configure_logging_body rt p l out c s = Returned s'
                 \<and> s1 = s'\<lparr>configure_logging_cache := (p, l, out, c) # configure_logging_cache s'\<rparr>))"
  using assms by (auto simp: configure_logging_def Let_def split: if_splits outcome.splits)

lemma body_returned_args:
  assumes "configure_logging_body rt p l out c s = Returned s'"
  shows "\<not> (p \<and> out \<noteq> None)" and "\<exists>n. map_of NAME_TO_LEVEL (lower l) = Some n"
proof -
  show pre: "\<not> (p \<and> out \<noteq> None)"
  proof
    assume "p \<and> out \<noteq> None"
    from body_raises_precondition [OF this, of rt l c s] assms show False by simp
  qed
  show "\<exists>n. map_of NAME_TO_LEVEL (lower l) = Some n"
  proof (cases "map_of NAME_TO_LEVEL (lower l)")
    case None
    from body_raises_level [OF pre None, of rt c s] assms show ?thesis by simp
  next
    case (Some n)
    then show ?thesis by simp
  qed
qed

text \<open>
  C3. A call of \<^verbatim>\<open>configure_logging\<close> that returned is answered from the cache when it
  is repeated with the same arguments: the state, and so the pipeline structlog holds,
  is the same. \<^verbatim>\<open>logging_processors\<close> called twice with the same mode returns the same
  objects and builds nothing on the second call; the pipeline a call of
  \<^verbatim>\<open>configure_logging\<close> installs is the object \<^verbatim>\<open>logging_processors\<close> returns for
  that mode afterwards.
\<close>

theorem configure_logging_memoized:
  assumes "configure_logging rt enable_pretty_log log_level output cache_logger_on_first_use s
             = Returned s1"
  shows "configure_logging rt enable_pretty_log log_level output cache_logger_on_first_use s1
           = Returned s1
       \<and> logging_processors rt mode (snd (logging_processors rt mode s0))
           = (fst (logging_processors rt mode s0), snd (logging_processors rt mode s0))
       \<and> (reachable rt s \<and> (enable_pretty_log, log_level, output, cache_logger_on_first_use)
                              \<notin> set (configure_logging_cache s) \<longrightarrow>
            map_option cfg_processors (structlog_configured s1)
              = Some (fst (logging_processors rt enable_pretty_log s1)))"
proof -
  let ?key = "(enable_pretty_log, log_level, output, cache_logger_on_first_use)"
  from configure_returned_cases [OF assms]
  have "?key \<in> set (configure_logging_cache s1)" by auto
  then have a: "configure_logging rt enable_pretty_log log_level output
      cache_logger_on_first_use s1 = Returned s1"
    by (simp add: configure_logging_def)
  have b: "logging_processors rt mode (snd (logging_processors rt mode s0))
           = (fst (logging_processors rt mode s0), snd (logging_processors rt mode s0))"
    by (simp add: logging_processors_twice)
  have c: "map_option cfg_processors (structlog_configured s1)
              = Some (fst (logging_processors rt enable_pretty_log s1))"
    if r: "reachable rt s" and miss: "?key \<notin> set (configure_logging_cache s)"
  proof -
    from configure_returned_cases [OF assms] miss obtain s'
      where b: "configure_logging_body rt enable_pretty_log log_level output
                  cache_logger_on_first_use s = Returned s'"
        and s1: "s1 = s'\<lparr>configure_logging_cache := ?key # configure_logging_cache s'\<rparr>"
      by auto
    obtain r1 t where lp: "logging_processors rt enable_pretty_log s = (r1, t)"
      by (cases "logging_processors rt enable_pretty_log s")
    from body_returned_args [OF b] obtain n
      where pre: "\<not> (enable_pretty_log \<and> output \<noteq> None)"
        and n: "map_of NAME_TO_LEVEL (lower log_level) = Some n" by auto
    note ok = reachable_caches_ok [OF r]
    from body_returns [OF ok pre n lp, of cache_logger_on_first_use] b
    have cache: "logging_processors_cache s' = logging_processors_cache t"
      and cfg: "map_option cfg_processors (structlog_configured s') = Some r1" by auto
    have "map_of (logging_processors_cache s1) enable_pretty_log = Some r1"
      using logging_processors_result(3) [OF ok lp] cache s1 by simp
    then have "logging_processors rt enable_pretty_log s1 = (r1, s1)"
      by (rule logging_processors_cached)
    with cfg s1 show ?thesis by simp
  qed
  from a b c show ?thesis by blast
qed

theorem configure_logging_memoized_witness:
  "configure_logging plain_runtime False ''INFO'' (Some 1) True initial_state
     = Returned (state_of (configure_logging plain_runtime False ''INFO'' (Some 1) True initial_state))
   \<and> configure_logging plain_runtime False ''INFO'' (Some 1) True
       (state_of (configure_logging plain_runtime False ''INFO'' (Some 1) True initial_state))
     = Returned (state_of (configure_logging plain_runtime False ''INFO'' (Some 1) True initial_state))
   \<and> pipeline_id (state_of (configure_logging plain_runtime False ''INFO'' (Some 1) True initial_state))
     = Some 0"
proof -
  let ?s1 = "state_of (configure_logging plain_runtime False ''INFO'' (Some 1) True initial_state)"
  have r: "configure_logging plain_runtime False ''INFO'' (Some 1) True initial_state = Returned ?s1"
    by (simp add: configure_logging_def configure_logging_body_def initial_state_def
          logging_processors_def logging_processors_body_def getitem_def lower_def
          NAME_TO_LEVEL_def Let_def)
  have p: "pipeline_id ?s1 = Some 0"
    by (simp add: configure_logging_def configure_logging_body_def initial_state_def
          logging_processors_def logging_processors_body_def getitem_def lower_def
          NAME_TO_LEVEL_def Let_def pipeline_id_def install_showwarning_def)
  from configure_logging_memoized [OF r] r p show ?thesis by simp
qed

section \<open>Reset\<close>

lemma pipeline_id_cfg:
  "map_option cfg_processors (structlog_configured s) = Some r \<Longrightarrow> pipeline_id s = Some (lp_id r)"
  by (auto simp: pipeline_id_def)

lemma pipeline_id_cache [simp]:
  "pipeline_id (s\<lparr>configure_logging_cache := x\<rparr>) = pipeline_id s"
  by (simp add: pipeline_id_def)

text \<open>
  C4 (as amended). After the first call of \<^verbatim>\<open>configure_logging\<close> that runs and returns
  (the saved reference was \<^verbatim>\<open>None\<close>), \<^verbatim>\<open>reset_logging\<close> puts back in
  \<^verbatim>\<open>warnings.showwarning\<close> what it held before that call and empties the cache of
  \<^verbatim>\<open>configure_logging\<close>; the next call with the same arguments runs the body again and
  returns, and it installs the same pipeline instance as before, building no new
  object.
\<close>

theorem reset_logging_then_configure:
  assumes r: "reachable rt s"
    and saved: "saved_showwarning s = None"
    and miss: "(enable_pretty_log, log_level, output, cache_logger_on_first_use)
                 \<notin> set (configure_logging_cache s)"
    and conf: "configure_logging rt enable_pretty_log log_level output cache_logger_on_first_use s
                 = Returned s1"
  shows "warnings_showwarning (reset_logging s1) = warnings_showwarning s
       \<and> configure_logging_cache (reset_logging s1) = []
       \<and> (\<exists>s3. configure_logging rt enable_pretty_log log_level output
                   cache_logger_on_first_use (reset_logging s1) = Returned s3
              \<and> configure_logging_cache s3
                  = [(enable_pretty_log, log_level, output, cache_logger_on_first_use)]
              \<and> pipeline_id s3 = pipeline_id s1
              \<and> next_obj s3 = next_obj s1)"
proof -
  let ?key = "(enable_pretty_log, log_level, output, cache_logger_on_first_use)"
  let ?s2 = "reset_logging s1"
  note ok = reachable_caches_ok [OF r]
  from configure_returned_cases [OF conf] miss obtain s'
    where b: "configure_logging_body rt enable_pretty_log log_level output
                cache_logger_on_first_use s = Returned s'"
      and s1: "s1 = s'\<lparr>configure_logging_cache := ?key # configure_logging_cache s'\<rparr>"
    by auto
  obtain r1 t where lp: "logging_processors rt enable_pretty_log s = (r1, t)"
    by (cases "logging_processors rt enable_pretty_log s")
  from body_returned_args [OF b] obtain n
    where pre: "\<not> (enable_pretty_log \<and> output \<noteq> None)"
      and n: "map_of NAME_TO_LEVEL (lower log_level) = Some n" by auto
  from body_returns [OF ok pre n lp, of cache_logger_on_first_use] b
  have cache: "logging_processors_cache s' = logging_processors_cache t"
    and cfg: "map_option cfg_processors (structlog_configured s') = Some r1"
    and sv: "saved_showwarning s' =
               (if saved_showwarning s = None then warnings_showwarning s else saved_showwarning s)"
    by auto
  have restored: "warnings_showwarning ?s2 = warnings_showwarning s"
    using sv saved s1 by (simp add: reset_logging_def)
  have cleared: "configure_logging_cache ?s2 = []"
    by (simp add: reset_logging_def)
  have p1: "pipeline_id s1 = Some (lp_id r1)"
    using pipeline_id_cfg [OF cfg] s1 by simp
  have "reachable rt (state_of (configure_logging rt enable_pretty_log log_level output
      cache_logger_on_first_use s))"
    by (rule reachable_configure [OF r])
  with conf have "reachable rt s1" by simp
  then have r2: "reachable rt ?s2" by (rule reachable_reset)
  note ok2 = reachable_caches_ok [OF r2]
  have "map_of (logging_processors_cache ?s2) enable_pretty_log = Some r1"
    using logging_processors_result(3) [OF ok lp] cache s1 by (simp add: reset_logging_def)
  then have lp2: "logging_processors rt enable_pretty_log ?s2 = (r1, ?s2)"
    by (rule logging_processors_cached)
  from body_returns [OF ok2 pre n lp2, of cache_logger_on_first_use] obtain s3'
    where b3: "configure_logging_body rt enable_pretty_log log_level output
                 cache_logger_on_first_use ?s2 = Returned s3'"
      and c3: "configure_logging_cache s3' = configure_logging_cache ?s2"
      and n3: "next_obj s3' = next_obj ?s2"
      and cfg3: "map_option cfg_processors (structlog_configured s3') = Some r1"
    by blast
  let ?s3 = "s3'\<lparr>configure_logging_cache := ?key # configure_logging_cache s3'\<rparr>"
  have "configure_logging rt enable_pretty_log log_level output cache_logger_on_first_use ?s2
          = Returned ?s3"
    using b3 cleared by (simp add: configure_logging_def)
  moreover have "configure_logging_cache ?s3 = [?key]"
    using c3 cleared by simp
  moreover have "pipeline_id ?s3 = pipeline_id s1"
    using pipeline_id_cfg [OF cfg3] p1 by simp
  moreover have "next_obj ?s3 = next_obj s1"
    using n3 by (simp add: reset_logging_def)
  ultimately show ?thesis
    using restored cleared by blast
qed

lemmas eval_defs = configure_logging_def configure_logging_body_def initial_state_def
  logging_processors_def logging_processors_body_def getitem_def lower_def upper_def
  NAME_TO_LEVEL_def Let_def pipeline_id_def install_showwarning_def reset_logging_def
  plain_runtime_def logging_dict_config_def

theorem reset_logging_then_configure_witness:
  "saved_showwarning initial_state = None
   \<and> warnings_showwarning initial_state = Some Default_showwarning
   \<and> warnings_showwarning (reset_logging (state_of
         (configure_logging plain_runtime False ''DEBUG'' (Some 1) True initial_state)))
       = Some Default_showwarning
   \<and> (\<exists>s3. configure_logging plain_runtime False ''DEBUG'' (Some 1) True
              (reset_logging (state_of
                 (configure_logging plain_runtime False ''DEBUG'' (Some 1) True initial_state)))
            = Returned s3
          \<and> pipeline_id s3 = Some 0)"
proof -
  let ?s1 = "state_of (configure_logging plain_runtime False ''DEBUG'' (Some 1) True initial_state)"
  have r: "configure_logging plain_runtime False ''DEBUG'' (Some 1) True initial_state = Returned ?s1"
    by (simp add: eval_defs)
  have p: "pipeline_id ?s1 = Some 0"
    by (simp add: eval_defs)
  have i: "saved_showwarning initial_state = None"
    "warnings_showwarning initial_state = Some Default_showwarning"
    "(False, ''DEBUG'', Some 1, True) \<notin> set (configure_logging_cache initial_state)"
    by (simp_all add: initial_state_def)
  from reset_logging_then_configure [OF reachable_initial i(1) i(3) r] i p
  show ?thesis by auto
qed

theorem reset_logging_then_configure_counterexample:
  "saved_showwarning (reset_logging (state_of
      (configure_logging plain_runtime False ''DEBUG'' (Some 1) True initial_state)))
     = Some Default_showwarning
   \<and> pipeline_id (state_of
      (configure_logging plain_runtime False ''DEBUG'' (Some 1) True initial_state)) = Some 0
   \<and> pipeline_id (state_of (configure_logging plain_runtime False ''DEBUG'' (Some 1) True
        (reset_logging (state_of
          (configure_logging plain_runtime False ''DEBUG'' (Some 1) True initial_state)))))
     = Some 0"
  by (simp add: eval_defs)

text \<open>
  C10. When the saved reference holds \<^verbatim>\<open>None\<close>, \<^verbatim>\<open>reset_logging\<close> assigns
  \<^verbatim>\<open>None\<close> to \<^verbatim>\<open>warnings.showwarning\<close>, whatever it held, and a warning shown after
  that reaches no handler.
\<close>

theorem reset_logging_before_configure:
  assumes "saved_showwarning s = None"
  shows "warnings_showwarning (reset_logging s) = None
       \<and> call_showwarning (reset_logging s) w = Not_callable"
  using assms by (simp add: reset_logging_def call_showwarning_def)

theorem reset_logging_before_configure_witness:
  "saved_showwarning initial_state = None
   \<and> warnings_showwarning initial_state = Some Default_showwarning
   \<and> warnings_showwarning (reset_logging initial_state) = None
   \<and> call_showwarning (reset_logging initial_state)
        \<lparr>w_message = ''deprecated'', w_category = ''DeprecationWarning'', w_filename = ''dag.py'',
         w_lineno = 7, w_file = None, w_line = None\<rparr> = Not_callable"
  using reset_logging_before_configure [of initial_state
          "\<lparr>w_message = ''deprecated'', w_category = ''DeprecationWarning'',
            w_filename = ''dag.py'', w_lineno = 7, w_file = None, w_line = None\<rparr>"]
  by (simp add: initial_state_def)

section \<open>Warnings\<close>

lemma logging_processors_showwarning:
  "saved_showwarning (snd (logging_processors rt p s)) = saved_showwarning s"
  "warnings_showwarning (snd (logging_processors rt p s)) = warnings_showwarning s"
  by (simp_all add: logging_processors_def Let_def split: option.splits)

lemma body_keeps_bridge:
  assumes "saved_showwarning s = Some h"
  shows "saved_showwarning (state_of (configure_logging_body rt p l out c s)) = Some h
       \<and> warnings_showwarning (state_of (configure_logging_body rt p l out c s))
           = warnings_showwarning s"
proof -
  obtain r s1 where lp: "logging_processors rt p s = (r, s1)"
    by (cases "logging_processors rt p s")
  from logging_processors_showwarning [of rt p s] lp assms
  have s1: "saved_showwarning s1 = Some h" "warnings_showwarning s1 = warnings_showwarning s"
    by simp_all
  show ?thesis
    using lp s1 assms
    by (cases p)
       (auto simp: configure_logging_body_def Let_def install_showwarning_def
             split: sum.splits)
qed

lemma configure_keeps_bridge:
  assumes "saved_showwarning s = Some h"
  shows "saved_showwarning (state_of (configure_logging rt p l out c s)) = Some h
       \<and> warnings_showwarning (state_of (configure_logging rt p l out c s))
           = warnings_showwarning s"
proof (cases "configure_logging_body rt p l out c s")
  case (Raised e s')
  with body_keeps_bridge [OF assms, of rt p l out c] assms show ?thesis
    by (simp add: configure_logging_def Let_def)
next
  case (Returned s')
  with body_keeps_bridge [OF assms, of rt p l out c] assms show ?thesis
    by (simp add: configure_logging_def Let_def)
qed

text \<open>
  C8 (as amended). While the bridge is installed (\<^verbatim>\<open>warnings.showwarning\<close> is
  \<^verbatim>\<open>_showwarning\<close>): a warning shown with a file is passed on to the saved handler when
  the saved reference holds one, and nothing is done with it when the saved reference is
  \<^verbatim>\<open>None\<close>; a warning shown without a file is logged by a call of \<^verbatim>\<open>warning\<close> on the
  logger bound to \<^verbatim>\<open>logger_name="py.warnings"\<close>, with the category name, the file name
  and the line number, and the \<^verbatim>\<open>logger_name\<close> processor gives that event the field
  \<^verbatim>\<open>logger\<close> with \<^verbatim>\<open>"py.warnings"\<close>; while the saved reference holds a handler, a
  further call of \<^verbatim>\<open>configure_logging\<close>, whatever its arguments and outcome, saves and
  substitutes nothing.
\<close>

theorem showwarning_bridge:
  assumes "warnings_showwarning s = Some Airflow_showwarning"
  shows "(w_file w \<noteq> None \<longrightarrow>
            call_showwarning s w =
              Bridged (case saved_showwarning s of
                         Some h \<Rightarrow> Delegated h w
                       | None \<Rightarrow> Nothing_done))
       \<and> (w_file w = None \<longrightarrow>
            call_showwarning s w =
              Bridged (Logged \<lparr>initial_values = [(''logger_name'', VStr ''py.warnings'')],
                               method_name = ''warning'',
                               event = w_message w,
                               event_kw = [(''category'', VStr (w_category w)),
                                           (''filename'', VStr (w_filename w)),
                                           (''lineno'', VInt (w_lineno w))]\<rparr>)
            \<and> logger_name (bound_event
                  \<lparr>initial_values = [(''logger_name'', VStr ''py.warnings'')],
                   method_name = ''warning'',
                   event = w_message w,
                   event_kw = [(''category'', VStr (w_category w)),
                               (''filename'', VStr (w_filename w)),
                               (''lineno'', VInt (w_lineno w))]\<rparr>)
               = [(''category'', VStr (w_category w)), (''filename'', VStr (w_filename w)),
                  (''lineno'', VInt (w_lineno w)), (''event'', VStr (w_message w)),
                  (''logger'', VStr ''py.warnings'')])
       \<and> (saved_showwarning s = Some h \<longrightarrow>
            saved_showwarning (state_of (configure_logging rt enable_pretty_log log_level output
                                           cache_logger_on_first_use s)) = Some h
            \<and> warnings_showwarning (state_of (configure_logging rt enable_pretty_log log_level
                                                output cache_logger_on_first_use s))
                = Some Airflow_showwarning)"
proof -
  have a: "call_showwarning s w = Bridged (showwarning s w)"
    using assms by (simp add: call_showwarning_def)
  have b: "w_file w \<noteq> None \<Longrightarrow> showwarning s w =
      (case saved_showwarning s of Some h \<Rightarrow> Delegated h w | None \<Rightarrow> Nothing_done)"
    by (auto simp: showwarning_def)
  have c: "w_file w = None \<Longrightarrow> showwarning s w =
      Logged \<lparr>initial_values = [(''logger_name'', VStr ''py.warnings'')],
              method_name = ''warning'', event = w_message w,
              event_kw = [(''category'', VStr (w_category w)),
                          (''filename'', VStr (w_filename w)),
                          (''lineno'', VInt (w_lineno w))]\<rparr>"
    by (simp add: showwarning_def)
  have d: "logger_name (bound_event
                  \<lparr>initial_values = [(''logger_name'', VStr ''py.warnings'')],
                   method_name = ''warning'',
                   event = w_message w,
                   event_kw = [(''category'', VStr (w_category w)),
                               (''filename'', VStr (w_filename w)),
                               (''lineno'', VInt (w_lineno w))]\<rparr>)
               = [(''category'', VStr (w_category w)), (''filename'', VStr (w_filename w)),
                  (''lineno'', VInt (w_lineno w)), (''event'', VStr (w_message w)),
                  (''logger'', VStr ''py.warnings'')]"
    by (simp add: logger_name_def bound_event_def setdefault_def)
  have e: "saved_showwarning (state_of (configure_logging rt enable_pretty_log log_level output
                                         cache_logger_on_first_use s)) = Some h
       \<and> warnings_showwarning (state_of (configure_logging rt enable_pretty_log log_level output
                                            cache_logger_on_first_use s))
           = warnings_showwarning s"
    if "saved_showwarning s = Some h"
    by (rule configure_keeps_bridge [OF that])
  from assms a b c d e show ?thesis by simp
qed

theorem showwarning_bridge_witness:
  "warnings_showwarning (state_of
      (configure_logging plain_runtime False ''INFO'' (Some 1) True initial_state))
     = Some Airflow_showwarning
   \<and> call_showwarning (state_of
        (configure_logging plain_runtime False ''INFO'' (Some 1) True initial_state))
        \<lparr>w_message = ''old api'', w_category = ''DeprecationWarning'', w_filename = ''dag.py'',
         w_lineno = 7, w_file = Some 3, w_line = None\<rparr>
     = Bridged (Delegated Default_showwarning
        \<lparr>w_message = ''old api'', w_category = ''DeprecationWarning'', w_filename = ''dag.py'',
         w_lineno = 7, w_file = Some 3, w_line = None\<rparr>)
   \<and> call_showwarning (state_of
        (configure_logging plain_runtime False ''INFO'' (Some 1) True initial_state))
        \<lparr>w_message = ''old api'', w_category = ''DeprecationWarning'', w_filename = ''dag.py'',
         w_lineno = 7, w_file = None, w_line = None\<rparr>
     = Bridged (Logged \<lparr>initial_values = [(''logger_name'', VStr ''py.warnings'')],
                       method_name = ''warning'',
                       event = ''old api'',
                       event_kw = [(''category'', VStr ''DeprecationWarning''),
                                   (''filename'', VStr ''dag.py''),
                                   (''lineno'', VInt 7)]\<rparr>)
   \<and> saved_showwarning (state_of (configure_logging plain_runtime True ''DEBUG'' None True
        (state_of (configure_logging plain_runtime False ''INFO'' (Some 1) True initial_state))))
     = Some Default_showwarning
   \<and> call_showwarning (state_of
        (configure_logging plain_runtime False ''INFO'' (Some 1) True
           (reset_logging initial_state)))
        \<lparr>w_message = ''old api'', w_category = ''DeprecationWarning'', w_filename = ''dag.py'',
         w_lineno = 7, w_file = Some 3, w_line = None\<rparr>
     = Bridged Nothing_done"
proof -
  let ?s1 = "state_of (configure_logging plain_runtime False ''INFO'' (Some 1) True initial_state)"
  let ?sA = "state_of (configure_logging plain_runtime False ''INFO'' (Some 1) True
               (reset_logging initial_state))"
  have i: "warnings_showwarning ?s1 = Some Airflow_showwarning"
    and j: "saved_showwarning ?s1 = Some Default_showwarning"
    and k: "warnings_showwarning ?sA = Some Airflow_showwarning"
    and l: "saved_showwarning ?sA = None"
    by (simp_all add: eval_defs)
  from showwarning_bridge [OF i,
         of "\<lparr>w_message = ''old api'', w_category = ''DeprecationWarning'',
               w_filename = ''dag.py'', w_lineno = 7, w_file = Some 3, w_line = None\<rparr>"
            Default_showwarning plain_runtime True "''DEBUG''" None True]
       showwarning_bridge [OF i,
         of "\<lparr>w_message = ''old api'', w_category = ''DeprecationWarning'',
               w_filename = ''dag.py'', w_lineno = 7, w_file = None, w_line = None\<rparr>"
            Default_showwarning plain_runtime True "''DEBUG''" None True]
       showwarning_bridge [OF k,
         of "\<lparr>w_message = ''old api'', w_category = ''DeprecationWarning'',
               w_filename = ''dag.py'', w_lineno = 7, w_file = Some 3, w_line = None\<rparr>"
            Default_showwarning plain_runtime True "''DEBUG''" None True]
       i j l
  show ?thesis by simp
qed

theorem showwarning_bridge_counterexample:
  "warnings_showwarning (state_of
      (configure_logging plain_runtime False ''INFO'' (Some 1) True (reset_logging initial_state)))
     = Some Airflow_showwarning
   \<and> call_showwarning (state_of
        (configure_logging plain_runtime False ''INFO'' (Some 1) True
           (reset_logging initial_state)))
        \<lparr>w_message = ''old api'', w_category = ''DeprecationWarning'', w_filename = ''dag.py'',
         w_lineno = 7, w_file = Some 3, w_line = None\<rparr>
     = Bridged Nothing_done
   \<and> saved_showwarning (state_of
        (configure_logging plain_runtime False ''INFO'' (Some 1) True
           (reset_logging initial_state))) = None
   \<and> saved_showwarning (state_of (configure_logging plain_runtime True ''DEBUG'' None True
        (state_of (configure_logging plain_runtime False ''INFO'' (Some 1) True
           (reset_logging initial_state))))) = Some Airflow_showwarning"
  by (simp add: eval_defs call_showwarning_def showwarning_def)

section \<open>The pipeline and its formatters\<close>

lemma processors_body_pretty:
  "processors (logging_processors_body rt n True) =
     [MaybeTimeStamper ''%Y-%m-%d %H:%M:%S.%f'', P_merge_contextvars, P_add_log_level,
      PositionalArgumentsFormatter, P_logger_name, P_redact_jwt, StackInfoRenderer,
      ConsoleRenderer (RichTracebackFormatter 0 30 False suppress) [(''debug'', ''CYAN'')]]"
  by (simp add: logging_processors_body_def Let_def)

lemma processors_body_structured:
  "processors (logging_processors_body rt n False) =
     [MaybeTimeStamper ''iso'', P_merge_contextvars, P_add_log_level,
      PositionalArgumentsFormatter, P_logger_name, P_redact_jwt, StackInfoRenderer]
     @ (if has_BaseExceptionGroup rt
        then [P_exception_group_tracebacks (ExceptionDictTransformer False False suppress)]
        else [])
     @ [ExceptionRenderer (ExceptionDictTransformer False False suppress), UnicodeDecoder,
        JSONRenderer]"
  by (simp add: logging_processors_body_def Let_def)

text \<open>
  C6. The Structured pipeline the builder returns where the module is imported (the
  \<^verbatim>\<open>hasattr\<close> expression is false): the seven common processors, then the structured
  exception formatter, the Unicode decoder and the JSON renderer. The exception-group
  processor is not in it, and \<^verbatim>\<open>named["exc_group_processor"]\<close> is \<^verbatim>\<open>None\<close>.
\<close>

theorem logging_processors_structured_imported:
  "processors (fst (logging_processors imported_runtime False initial_state)) =
     [MaybeTimeStamper ''iso'', P_merge_contextvars, P_add_log_level,
      PositionalArgumentsFormatter, P_logger_name, P_redact_jwt, StackInfoRenderer,
      ExceptionRenderer (ExceptionDictTransformer False False suppress), UnicodeDecoder,
      JSONRenderer]
   \<and> P_exception_group_tracebacks (ExceptionDictTransformer False False suppress)
       \<notin> set (processors (fst (logging_processors imported_runtime False initial_state)))
   \<and> map_of (named (fst (logging_processors imported_runtime False initial_state)))
        ''exc_group_processor'' = Some P_None"
  by (simp add: logging_processors_def initial_state_def processors_body_structured
        logging_processors_body_def imported_runtime_def Let_def)

text \<open>
  C9. The arguments the two exception formatters are constructed with, in every runtime:
  the Structured formatter gets \<^verbatim>\<open>use_rich=False\<close>, \<^verbatim>\<open>show_locals=False\<close> and the
  suppress set, and no \<^verbatim>\<open>max_frames\<close>; \<^verbatim>\<open>max_frames=30\<close> goes to the Pretty formatter
  only.
\<close>

theorem structured_formatter_arguments:
  "exception_formatter_of (processors (logging_processors_body rt n False))
     = Some (ExceptionDictTransformer False False suppress)
   \<and> exception_formatter_of (processors (logging_processors_body rt n True))
     = Some (RichTracebackFormatter 0 30 False suppress)"
  by (simp add: processors_body_structured processors_body_pretty)

section \<open>Emission\<close>

lemma emit_try_ok:
  "format r = Inr msg \<Longrightarrow> write_raises st = None \<Longrightarrow> flush_raises st = None \<Longrightarrow>
     emit_try enc format r st =
       Inr (st\<lparr>content := content st @ enc msg @ [CHR 0x0A], flushes := Suc (flushes st)\<rparr>)"
  by (simp add: emit_try_def stream_write_def stream_flush_def Let_def)

lemma emit_try_fails:
  "(emit_try enc format r st = Inl (e, st')) =
     ((format r = Inl e \<and> st' = st)
      \<or> (\<exists>msg. format r = Inr msg \<and> write_raises st = Some e \<and> st' = st)
      \<or> (\<exists>msg. format r = Inr msg \<and> write_raises st = None \<and> flush_raises st = Some e
             \<and> st' = st\<lparr>content := content st @ enc msg @ [CHR 0x0A]\<rparr>))"
  by (auto simp: emit_try_def stream_write_def stream_flush_def Let_def
           split: sum.splits option.splits)

text \<open>
  C7 (as amended). When formatting, writing and flushing succeed, \<^verbatim>\<open>emit\<close> writes the
  encoded message followed by one newline and flushes once. When one of them raises,
  \<^verbatim>\<open>RecursionError\<close> is raised again; any other instance of \<^verbatim>\<open>Exception\<close> is passed
  to \<^verbatim>\<open>handleError\<close> and \<^verbatim>\<open>emit\<close> returns; an exception that is not an instance of
  \<^verbatim>\<open>Exception\<close> propagates. The last conjunct says when the \<^verbatim>\<open>try\<close> block raises.
\<close>

theorem emit_contract:
  "(format r = Inr msg \<and> write_raises (handler_stream h) = None
      \<and> flush_raises (handler_stream h) = None \<longrightarrow>
      emit utf8_backslashreplace format r h =
        Emit_returned (h\<lparr>handler_stream := (handler_stream h)
          \<lparr>content := content (handler_stream h) @ utf8_backslashreplace msg @ [CHR 0x0A],
           flushes := Suc (flushes (handler_stream h))\<rparr>\<rparr>))
   \<and> (emit_try utf8_backslashreplace format r (handler_stream h) = Inl (e, st) \<longrightarrow>
        (e = RecursionError \<longrightarrow>
           emit utf8_backslashreplace format r h
             = Emit_raised RecursionError (h\<lparr>handler_stream := st\<rparr>))
      \<and> (e \<noteq> RecursionError \<and> isinstance_Exception e \<longrightarrow>
           emit utf8_backslashreplace format r h
             = Emit_returned (h\<lparr>handler_stream := st,
                                handled_errors := handled_errors h @ [r]\<rparr>))
      \<and> (\<not> isinstance_Exception e \<longrightarrow>
           emit utf8_backslashreplace format r h = Emit_raised e (h\<lparr>handler_stream := st\<rparr>)))
   \<and> ((emit_try utf8_backslashreplace format r (handler_stream h) = Inl (e, st)) =
        ((format r = Inl e \<and> st = handler_stream h)
         \<or> (\<exists>m. format r = Inr m \<and> write_raises (handler_stream h) = Some e
                \<and> st = handler_stream h)
         \<or> (\<exists>m. format r = Inr m \<and> write_raises (handler_stream h) = None
                \<and> flush_raises (handler_stream h) = Some e
                \<and> st = (handler_stream h)
                     \<lparr>content := content (handler_stream h) @ utf8_backslashreplace m
                                  @ [CHR 0x0A]\<rparr>)))"
proof -
  have a: "emit utf8_backslashreplace format r h =
        Emit_returned (h\<lparr>handler_stream := (handler_stream h)
          \<lparr>content := content (handler_stream h) @ utf8_backslashreplace msg @ [CHR 0x0A],
           flushes := Suc (flushes (handler_stream h))\<rparr>\<rparr>)"
    if "format r = Inr msg" "write_raises (handler_stream h) = None"
       "flush_raises (handler_stream h) = None"
    using that by (simp add: emit_def emit_try_ok)
  have b: "emit utf8_backslashreplace format r h =
      (if e = RecursionError then Emit_raised e (h\<lparr>handler_stream := st\<rparr>)
       else if isinstance_Exception e
       then Emit_returned (h\<lparr>handler_stream := st, handled_errors := handled_errors h @ [r]\<rparr>)
       else Emit_raised e (h\<lparr>handler_stream := st\<rparr>))"
    if "emit_try utf8_backslashreplace format r (handler_stream h) = Inl (e, st)"
    using that by (simp add: emit_def handleError_def)
  have c: "isinstance_Exception RecursionError"
    by (simp add: isinstance_Exception_def)
  from a b c emit_try_fails [of utf8_backslashreplace format r "handler_stream h" e st]
  show ?thesis by (auto simp del: emit_try_fails)
qed

theorem emit_contract_witness:
  "emit ascii_bytes (\<lambda>r. Inr [104, 105]) ''record''
      \<lparr>handler_stream = open_stream, handled_errors = []\<rparr>
     = Emit_returned
         \<lparr>handler_stream = open_stream\<lparr>content := ascii_bytes [104, 105] @ [CHR 0x0A],
                                         flushes := 1\<rparr>,
          handled_errors = []\<rparr>
   \<and> emit ascii_bytes (\<lambda>r. Inl (OtherException ''TypeError'')) ''record''
      \<lparr>handler_stream = open_stream, handled_errors = []\<rparr>
     = Emit_returned \<lparr>handler_stream = open_stream, handled_errors = [''record'']\<rparr>
   \<and> emit ascii_bytes (\<lambda>r. Inr [104, 105]) ''record''
      \<lparr>handler_stream = open_stream\<lparr>write_raises := Some RecursionError\<rparr>,
       handled_errors = []\<rparr>
     = Emit_raised RecursionError
         \<lparr>handler_stream = open_stream\<lparr>write_raises := Some RecursionError\<rparr>,
          handled_errors = []\<rparr>"
  using emit_contract [of "\<lambda>r. Inr [104, 105]" "''record''" "[104, 105]"
          "\<lparr>handler_stream = open_stream, handled_errors = []\<rparr>" ascii_bytes]
        emit_contract [of "\<lambda>r. Inl (OtherException ''TypeError'')" "''record''" _
          "\<lparr>handler_stream = open_stream, handled_errors = []\<rparr>" ascii_bytes
          "OtherException ''TypeError''" open_stream]
        emit_contract [of "\<lambda>r. Inr [104, 105]" "''record''" _
          "\<lparr>handler_stream = open_stream\<lparr>write_raises := Some RecursionError\<rparr>,
            handled_errors = []\<rparr>" ascii_bytes
          RecursionError "open_stream\<lparr>write_raises := Some RecursionError\<rparr>"]
  by (simp add: open_stream_def isinstance_Exception_def)

theorem emit_contract_counterexample:
  "emit ascii_bytes (\<lambda>r. Inl (NonException ''KeyboardInterrupt'')) ''record''
      \<lparr>handler_stream = open_stream, handled_errors = []\<rparr>
     = Emit_raised (NonException ''KeyboardInterrupt'')
         \<lparr>handler_stream = open_stream, handled_errors = []\<rparr>"
  by (simp add: emit_def emit_try_def isinstance_Exception_def)

end
